theory Spec2Isabelle
  imports Complex_Main "HOL-Library.Word"
begin

section \<open>Conventions of the embedding\<close>

text \<open>
  The C++ type \<open>double\<close> is modelled by \<^typ>\<open>real\<close>: arithmetic is exact, so rounding,
  overflow and the propagation of NaN through arithmetic are outside the model. Where the
  source produces NaN on purpose (\<open>InterpolationWeight::interpolate\<close>) the value is a
  constructor of its own. \<open>unsigned\<close> is \<^typ>\<open>32 word\<close>, \<open>size_t\<close> and container sizes are
  \<^typ>\<open>nat\<close>, \<open>long\<close> is \<^typ>\<open>int\<close>. An exception is the left summand of a sum type, and an
  access outside a container (undefined behaviour in C++) is an error value as well.
  The CGAL, nanoflann and ecCodes routines that the sources call are parameters of the
  functions that call them.
\<close>

datatype error = InvalidArgument | DecodeError | OutOfBounds

section \<open>libmetbuild: \<open>KdtreePrivate\<close>\<close>

text \<open>\<open>enum _errors { NoError, SizeMismatch }\<close> of \<open>Kdtree.h\<close>, as the integers C++ gives them.\<close>

definition NoError :: int where
  "NoError = 0"

definition SizeMismatch :: int where
  "SizeMismatch = 1"

text \<open>
  \<open>kd_tree_t\<close> is nanoflann's \<open>KDTreeSingleIndexAdaptor\<close>: the dimension and the leaf capacity
  it was constructed with, and the index that \<open>buildIndex\<close> computes from the point cloud.
\<close>

record 'idx kd_tree_t =
  tree_dim :: nat
  leaf_max_size :: nat
  tree_index :: 'idx

record 'idx KdtreePrivate =
  m_initialized :: bool
  m_cloud :: "(real \<times> real) list"
  m_tree :: "'idx kd_tree_t option"

text \<open>\<open>std::vector::resize\<close>: keeps a prefix, pads with value-initialised elements.\<close>

definition resize :: "nat \<Rightarrow> 'a \<Rightarrow> 'a list \<Rightarrow> 'a list" where
  "resize n d xs = take n xs @ replicate (n - length xs) d"

definition KdtreePrivate_default :: "'idx KdtreePrivate" where
  "KdtreePrivate_default = \<lparr>m_initialized = False, m_cloud = [], m_tree = None\<rparr>"

definition initialized :: "'idx KdtreePrivate \<Rightarrow> bool" where
  "initialized s = m_initialized s"

text \<open>
  \<open>KdtreePrivate::build\<close>. The loop writes \<open>pts[i].x = x[i]; pts[i].y = y[i]\<close> for
  \<open>i < x.size()\<close>; \<open>buildIndex\<close> is nanoflann's, given the leaf capacity and the cloud.
\<close>

definition build ::
  "(nat \<Rightarrow> (real \<times> real) list \<Rightarrow> 'idx) \<Rightarrow> real list \<Rightarrow> real list \<Rightarrow>
   'idx KdtreePrivate \<Rightarrow> int \<times> 'idx KdtreePrivate" where
  "build buildIndex x y s =
     (if length x \<noteq> length y then (1, s)
      else
        let pts0 = resize (length x) (0, 0) (m_cloud s);
            pts = fold (\<lambda>i ps. ps[i := (x ! i, y ! i)]) [0..<length x] pts0;
            tree = \<lparr>tree_dim = 2, leaf_max_size = 10, tree_index = buildIndex 10 pts\<rparr>
        in (0, s\<lparr>m_cloud := pts, m_tree := Some tree, m_initialized := True\<rparr>))"

text \<open>The constructor \<open>KdtreePrivate(x, y)\<close> starts uninitialised and drops the return code.\<close>

definition KdtreePrivate_ctor ::
  "(nat \<Rightarrow> (real \<times> real) list \<Rightarrow> 'idx) \<Rightarrow> real list \<Rightarrow> real list \<Rightarrow> 'idx KdtreePrivate" where
  "KdtreePrivate_ctor buildIndex x y = snd (build buildIndex x y KdtreePrivate_default)"

section \<open>libmetbuild: \<open>Grib\<close>\<close>



record Grib =
  m_ni :: int
  m_nj :: int
  m_size :: nat
  m_convention :: int
  m_latitude :: "real list"
  m_longitude :: "real list"
  m_corners :: "(real \<times> real) list"



text \<open>
  \<open>std::min_element(first, last)\<close> and \<open>std::max_element(first, last)\<close> on positions of a
  vector: the position of the first smallest (first largest) element of \<open>[first, last)\<close>,
  and the end of the range when it is empty.
\<close>

definition min_element :: "real list \<Rightarrow> nat \<Rightarrow> nat \<Rightarrow> nat" where
  "min_element xs first lst =
     (if first = lst then lst
      else fold (\<lambda>i smallest. if xs ! i < xs ! smallest then i else smallest)
             [Suc first..<lst] first)"

definition max_element :: "real list \<Rightarrow> nat \<Rightarrow> nat \<Rightarrow> nat" where
  "max_element xs first lst =
     (if first = lst then lst
      else fold (\<lambda>i largest. if xs ! largest < xs ! i then i else largest)
             [Suc first..<lst] first)"

text \<open>
  \<open>*(std::min_element(v.begin() + a, v.begin() + b))\<close>: the iterators are formed from the
  signed \<open>long\<close> offsets; a range that is not inside the vector, or dereferencing the end
  position, is undefined behaviour and is reported as \<open>None\<close>.
\<close>

definition deref_element ::
  "(real list \<Rightarrow> nat \<Rightarrow> nat \<Rightarrow> nat) \<Rightarrow> real list \<Rightarrow> int \<Rightarrow> int \<Rightarrow> real option" where
  "deref_element sel xs first lst =
     (if 0 \<le> first \<and> first \<le> lst \<and> lst \<le> int (length xs)
      then (let k = sel xs (nat first) (nat lst)
            in if k < length xs then Some (xs ! k) else None)
      else None)"

text \<open>
  \<open>Grib::findCorners\<close>. The construction of \<open>m_geometry\<close> from the corners (class
  \<open>Geometry\<close>) is not part of the model.
\<close>

definition findCorners :: "Grib \<Rightarrow> error + Grib" where
  "findCorners g =
     (let lon = m_longitude g; lat = m_latitude g; ni = m_ni g;
          lon_end = int (length lon); lat_end = int (length lat)
      in case those
           [deref_element min_element lon 0 (0 + ni - 1),
            deref_element max_element lon 0 (0 + ni - 1),
            deref_element min_element lon (lon_end - ni) lon_end,
            deref_element max_element lon (lon_end - ni) lon_end,
            deref_element min_element lat 0 (0 + ni - 1),
            deref_element max_element lat 0 (0 + ni - 1),
            deref_element min_element lat (lat_end - ni) lat_end,
            deref_element max_element lat (lat_end - ni) lat_end] of
           Some [xtl, xtr, xll, xlr, ytl, ytr, yll, ylr] \<Rightarrow>
             Inr (g\<lparr>m_corners := [(xll, yll), (xlr, ylr), (xtr, ytr), (xtl, ytl)]\<rparr>)
         | _ \<Rightarrow> Inl OutOfBounds)"

text \<open>
  The corners in the words of the specification: minimum and maximum of the first \<open>Ni\<close>
  and of the last \<open>Ni\<close> longitudes, likewise for the latitudes, in the same corner order.
\<close>

definition list_min :: "real list \<Rightarrow> real" where
  "list_min xs = fold min (tl xs) (hd xs)"

definition list_max :: "real list \<Rightarrow> real" where
  "list_max xs = fold max (tl xs) (hd xs)"

definition spec_corners :: "Grib \<Rightarrow> (real \<times> real) list" where
  "spec_corners g =
     (let ni = nat (m_ni g);
          lon_first = take ni (m_longitude g);
          lon_last = drop (length (m_longitude g) - ni) (m_longitude g);
          lat_first = take ni (m_latitude g);
          lat_last = drop (length (m_latitude g) - ni) (m_latitude g)
      in [(list_min lon_last, list_min lat_last), (list_max lon_last, list_max lat_last),
          (list_max lon_first, list_max lat_first), (list_min lon_first, list_min lat_first)])"

section \<open>fasttri: \<open>FaceInfo2\<close> and \<open>InterpolationWeight\<close>\<close>

record FaceInfo2 =
  m_in_domain :: bool

text \<open>The defaulted constructor with the member initialiser \<open>m_in_domain{false}\<close>.\<close>

definition FaceInfo2_default :: FaceInfo2 where
  "FaceInfo2_default = \<lparr>m_in_domain = False\<rparr>"

definition is_in_domain :: "FaceInfo2 \<Rightarrow> bool" where
  "is_in_domain fi = m_in_domain fi"

definition set_in_domain :: "bool \<Rightarrow> FaceInfo2 \<Rightarrow> FaceInfo2" where
  "set_in_domain in_domain fi = fi\<lparr>m_in_domain := in_domain\<rparr>"

record InterpolationWeight =
  m_vertices :: "32 word list"
  m_weights :: "real list"
  m_valid :: bool

text \<open>The default constructor creates an invalid weight.\<close>

definition InterpolationWeight_default :: InterpolationWeight where
  "InterpolationWeight_default =
     \<lparr>m_vertices = [0, 0, 0], m_weights = [0, 0, 0], m_valid = False\<rparr>"

definition InterpolationWeight_make :: "32 word list \<Rightarrow> real list \<Rightarrow> InterpolationWeight" where
  "InterpolationWeight_make vertices0 weights0 =
     \<lparr>m_vertices = vertices0, m_weights = weights0, m_valid = True\<rparr>"

definition vertices :: "InterpolationWeight \<Rightarrow> 32 word list" where
  "vertices w = m_vertices w"

definition weights :: "InterpolationWeight \<Rightarrow> real list" where
  "weights w = m_weights w"

definition valid :: "InterpolationWeight \<Rightarrow> bool" where
  "valid w = m_valid w"

text \<open>
  A result of \<open>interpolate\<close>: a number, or the quiet NaN that the source returns for an
  invalid weight.
\<close>

datatype f64 = Num real | NaN

text \<open>
  The lambda of \<open>InterpolationWeight::interpolate\<close>. \<open>values[k]\<close> with \<open>k\<close> outside the vector
  is undefined behaviour in C++ and an error here.
\<close>

definition interpolate_at :: "real list \<Rightarrow> InterpolationWeight \<Rightarrow> error + f64" where
  "interpolate_at values this_weight =
     (if \<not> valid this_weight then Inr NaN
      else if list_all (\<lambda>k. unat k < length values) (take 3 (vertices this_weight))
      then Inr (Num ((weights this_weight ! 0 * values ! unat (vertices this_weight ! 0)) +
                     (weights this_weight ! 1 * values ! unat (vertices this_weight ! 1)) +
                     (weights this_weight ! 2 * values ! unat (vertices this_weight ! 2))))
      else Inl OutOfBounds)"

fun interpolate :: "InterpolationWeight list \<Rightarrow> real list \<Rightarrow> error + f64 list" where
  "interpolate [] values = Inr []"
| "interpolate (w # ws) values =
     (case interpolate_at values w of
        Inl e \<Rightarrow> Inl e
      | Inr r \<Rightarrow> (case interpolate ws values of Inl e \<Rightarrow> Inl e | Inr rs \<Rightarrow> Inr (r # rs)))"

section \<open>fasttri: \<open>Triangulation\<close>\<close>

type_synonym t_Point = "real \<times> real"

text \<open>\<open>t_CDT::Locate_type\<close>, in CGAL's order.\<close>

datatype Locate_type = VERTEX | EDGE | FACE | OUTSIDE_CONVEX_HULL | OUTSIDE_AFFINE_HULL

text \<open>
  \<open>t_Vb\<close>: a vertex with its point and the \<open>unsigned\<close> info. \<open>t_Fb\<close>: a face with its three
  vertices, the constraint flags of its three edges and its \<open>FaceInfo2\<close>. A handle is
  modelled by the object it points to. \<open>t_CDT\<close>: the finite vertices and the finite faces,
  in iteration order.
\<close>

record t_Vertex =
  v_point :: t_Point
  v_info :: "32 word"

record t_Face =
  vertex0 :: t_Vertex
  vertex1 :: t_Vertex
  vertex2 :: t_Vertex
  f_constraint :: "bool list"
  f_info :: FaceInfo2

record t_CDT =
  finite_vertices :: "t_Vertex list"
  finite_faces :: "t_Face list"

definition vertex :: "t_Face \<Rightarrow> nat \<Rightarrow> t_Vertex" where
  "vertex f i = (if i = 0 then vertex0 f else if i = 1 then vertex1 f else vertex2 f)"

text \<open>A face as CGAL constructs it: no constrained edge, default-constructed info.\<close>

definition new_face :: "t_Vertex \<times> t_Vertex \<times> t_Vertex \<Rightarrow> t_Face" where
  "new_face vs =
     (case vs of (a, b, c) \<Rightarrow>
        \<lparr>vertex0 = a, vertex1 = b, vertex2 = c,
         f_constraint = [False, False, False], f_info = FaceInfo2_default\<rparr>)"

definition t_CDT_empty :: t_CDT where
  "t_CDT_empty = \<lparr>finite_vertices = [], finite_faces = []\<rparr>"

text \<open>\<open>std::views::iota(unsigned{0}, static_cast<unsigned>(n))\<close>: the size is cut to 32 bits.\<close>

definition iota :: "nat \<Rightarrow> 32 word list" where
  "iota n = map word_of_nat [0..<unat (word_of_nat n :: 32 word)]"

text \<open>
  \<open>mark_domain_status\<close>. \<open>mark\<close> is \<open>CGAL::mark_domain_in_triangulation\<close>: the property map
  it fills, keyed by the position of the face among the finite faces.
\<close>

definition mark_domain_status :: "(t_CDT \<Rightarrow> nat \<rightharpoonup> bool) \<Rightarrow> t_CDT \<Rightarrow> t_CDT" where
  "mark_domain_status mark triangulation =
     (let in_domain_map = mark triangulation
      in triangulation\<lparr>finite_faces :=
           map (\<lambda>(fit, f).
                  f\<lparr>f_info := set_in_domain
                     (case in_domain_map fit of None \<Rightarrow> False | Some b \<Rightarrow> b) (f_info f)\<rparr>)
               (enumerate 0 (finite_faces triangulation))\<rparr>)"

text \<open>
  \<open>add_mesh_points\<close>. \<open>ins\<close> is CGAL's insertion of the range of (point, index) pairs: it
  yields the finite vertices and the vertex triples of the finite faces. The function is
  only called on the empty triangulation, so every face is newly constructed.
\<close>

definition add_mesh_points ::
  "((t_Point \<times> 32 word) list \<Rightarrow> t_Vertex list \<times> (t_Vertex \<times> t_Vertex \<times> t_Vertex) list) \<Rightarrow>
   t_CDT \<Rightarrow> t_Point list \<Rightarrow> t_CDT" where
  "add_mesh_points ins triangulation points =
     (let pts_vec = map (\<lambda>pt_idx. (points ! unat pt_idx, pt_idx)) (iota (length points));
          (vs, fs) = ins pts_vec
      in triangulation\<lparr>finite_vertices := vs, finite_faces := map new_face fs\<rparr>)"

definition construct_points :: "real list \<Rightarrow> real list \<Rightarrow> error + t_Point list" where
  "construct_points points_x points_y =
     (if length points_x \<noteq> length points_y then Inl InvalidArgument
      else Inr (map (\<lambda>pt_idx. (points_x ! unat pt_idx, points_y ! unat pt_idx))
                  (iota (length points_x))))"

definition construct_triangulation ::
  "((t_Point \<times> 32 word) list \<Rightarrow> t_Vertex list \<times> (t_Vertex \<times> t_Vertex \<times> t_Vertex) list) \<Rightarrow>
   real list \<Rightarrow> real list \<Rightarrow> error + t_CDT" where
  "construct_triangulation ins x y =
     (if length x < 3 then Inl InvalidArgument
      else case construct_points x y of
             Inl e \<Rightarrow> Inl e
           | Inr pts \<Rightarrow> Inr (add_mesh_points ins t_CDT_empty pts))"

text \<open>
  The three overloads of \<open>Triangulation::apply_constraint_polygon\<close>: polygon, point vector,
  coordinate vectors. \<open>insc\<close> is CGAL's \<open>insert_constraint\<close> of the closed chain.
\<close>

definition apply_constraint_polygon ::
  "(t_Point list \<Rightarrow> t_CDT \<Rightarrow> t_CDT) \<Rightarrow> (t_CDT \<Rightarrow> nat \<rightharpoonup> bool) \<Rightarrow>
   t_Point list \<Rightarrow> t_CDT \<Rightarrow> error + t_CDT" where
  "apply_constraint_polygon insc mark poly m_triangulation =
     (if length poly < 3 then Inl InvalidArgument
      else Inr (mark_domain_status mark (insc poly m_triangulation)))"

definition apply_constraint_polygon_points ::
  "(t_Point list \<Rightarrow> t_CDT \<Rightarrow> t_CDT) \<Rightarrow> (t_CDT \<Rightarrow> nat \<rightharpoonup> bool) \<Rightarrow>
   t_Point list \<Rightarrow> t_CDT \<Rightarrow> error + t_CDT" where
  "apply_constraint_polygon_points insc mark region m_triangulation =
     apply_constraint_polygon insc mark region m_triangulation"

definition apply_constraint_polygon_xy ::
  "(t_Point list \<Rightarrow> t_CDT \<Rightarrow> t_CDT) \<Rightarrow> (t_CDT \<Rightarrow> nat \<rightharpoonup> bool) \<Rightarrow>
   real list \<Rightarrow> real list \<Rightarrow> t_CDT \<Rightarrow> error + t_CDT" where
  "apply_constraint_polygon_xy insc mark region_x region_y m_triangulation =
     (if length region_x \<noteq> length region_y then Inl InvalidArgument
      else apply_constraint_polygon_points insc mark
             (map (\<lambda>pt_idx. (region_x ! unat pt_idx, region_y ! unat pt_idx))
                (iota (length region_x)))
             m_triangulation)"

record t_LookupHint =
  face :: "t_Face option"
  has_hint :: bool

definition t_LookupHint_default :: t_LookupHint where
  "t_LookupHint_default = \<lparr>face = None, has_hint = False\<rparr>"

text \<open>
  \<open>Triangulation::get_interpolation_weight(point, hint)\<close>. \<open>locate\<close> is CGAL's point
  location, given the start face when there is a hint; it yields the locate type and the
  face.
\<close>

definition get_interpolation_weight ::
  "(t_CDT \<Rightarrow> t_Point \<Rightarrow> t_Face option \<Rightarrow> Locate_type \<times> t_Face) \<Rightarrow>
   t_CDT \<Rightarrow> t_Point \<Rightarrow> t_LookupHint \<Rightarrow> InterpolationWeight \<times> t_LookupHint" where
  "get_interpolation_weight locate m_triangulation point hint =
     (let (locate_type, face_handle) =
            (if has_hint hint then locate m_triangulation point (face hint)
             else locate m_triangulation point None)
      in if locate_type = FACE \<or> locate_type = EDGE \<or> locate_type = VERTEX
         then
           let hint' = hint\<lparr>face := Some face_handle, has_hint := True\<rparr>;
               vertices = [v_info (vertex face_handle 0), v_info (vertex face_handle 1),
                           v_info (vertex face_handle 2)];
               px0 = fst (v_point (vertex face_handle 0));
               py0 = snd (v_point (vertex face_handle 0));
               px1 = fst (v_point (vertex face_handle 1));
               py1 = snd (v_point (vertex face_handle 1));
               px2 = fst (v_point (vertex face_handle 2));
               py2 = snd (v_point (vertex face_handle 2));
               v0x = px2 - px0;
               v0y = py2 - py0;
               v1x = px1 - px0;
               v1y = py1 - py0;
               v2x = fst point - px0;
               v2y = snd point - py0;
               dot00 = (v0x * v0x) + (v0y * v0y);
               dot01 = (v0x * v1x) + (v0y * v1y);
               dot02 = (v0x * v2x) + (v0y * v2y);
               dot11 = (v1x * v1x) + (v1y * v1y);
               dot12 = (v1x * v2x) + (v1y * v2y);
               inv_denom = 1 / (dot00 * dot11 - dot01 * dot01);
               bary_u = (dot11 * dot02 - dot01 * dot12) * inv_denom;
               bary_v = (dot00 * dot12 - dot01 * dot02) * inv_denom;
               bary_w = 1 - bary_u - bary_v
           in (InterpolationWeight_make vertices [bary_w, bary_v, bary_u], hint')
         else (InterpolationWeight_default, hint))"

text \<open>The overload without a hint creates a fresh one and drops it.\<close>

definition get_interpolation_weight_point ::
  "(t_CDT \<Rightarrow> t_Point \<Rightarrow> t_Face option \<Rightarrow> Locate_type \<times> t_Face) \<Rightarrow>
   t_CDT \<Rightarrow> t_Point \<Rightarrow> InterpolationWeight" where
  "get_interpolation_weight_point locate m_triangulation point =
     fst (get_interpolation_weight locate m_triangulation point t_LookupHint_default)"

text \<open>\<open>get_interpolation_weights\<close>: one hint is threaded through the queries.\<close>

fun get_interpolation_weights_loop ::
  "(t_CDT \<Rightarrow> t_Point \<Rightarrow> t_Face option \<Rightarrow> Locate_type \<times> t_Face) \<Rightarrow>
   t_CDT \<Rightarrow> t_Point list \<Rightarrow> t_LookupHint \<Rightarrow> InterpolationWeight list" where
  "get_interpolation_weights_loop locate tri [] hint = []"
| "get_interpolation_weights_loop locate tri (this_pt # rest) hint =
     (let (w, hint') = get_interpolation_weight locate tri this_pt hint
      in w # get_interpolation_weights_loop locate tri rest hint')"

definition get_interpolation_weights ::
  "(t_CDT \<Rightarrow> t_Point \<Rightarrow> t_Face option \<Rightarrow> Locate_type \<times> t_Face) \<Rightarrow>
   t_CDT \<Rightarrow> t_Point list \<Rightarrow> InterpolationWeight list" where
  "get_interpolation_weights locate tri points =
     get_interpolation_weights_loop locate tri points t_LookupHint_default"

definition get_interpolation_weights_xy ::
  "(t_CDT \<Rightarrow> t_Point \<Rightarrow> t_Face option \<Rightarrow> Locate_type \<times> t_Face) \<Rightarrow>
   t_CDT \<Rightarrow> real list \<Rightarrow> real list \<Rightarrow> error + InterpolationWeight list" where
  "get_interpolation_weights_xy locate tri points_x points_y =
     (if length points_x \<noteq> length points_y then Inl InvalidArgument
      else Inr (get_interpolation_weights_loop locate tri
                  (map (\<lambda>pt_idx. (points_x ! unat pt_idx, points_y ! unat pt_idx))
                     (iota (length points_x)))
                  t_LookupHint_default))"

text \<open>\<open>Triangulation::get_triangles\<close>: the index triples of the in-domain finite faces.\<close>

definition get_triangles :: "t_CDT \<Rightarrow> 32 word list list" where
  "get_triangles m_triangulation =
     map (\<lambda>fit. [v_info (vertex fit 0), v_info (vertex fit 1), v_info (vertex fit 2)])
       (filter (\<lambda>fit. is_in_domain (f_info fit)) (finite_faces m_triangulation))"

text \<open>
  \<open>Triangulation::get_vertices\<close>: a vector of as many points as there are finite vertices,
  written at the position each vertex's info gives. A write outside the vector is
  undefined behaviour in C++ and an error here.
\<close>

fun get_vertices_loop :: "t_Vertex list \<Rightarrow> t_Point list \<Rightarrow> error + t_Point list" where
  "get_vertices_loop [] vs = Inr vs"
| "get_vertices_loop (vit # rest) vs =
     (if unat (v_info vit) < length vs
      then get_vertices_loop rest (vs[unat (v_info vit) := v_point vit])
      else Inl OutOfBounds)"


text \<open>
  The barycentric formula in the words of the specification, for a point \<open>p\<close> and the
  corners \<open>V0\<close>, \<open>V1\<close>, \<open>V2\<close> of the face: the triple \<open>(u, v, w)\<close>.
\<close>

definition dot :: "t_Point \<Rightarrow> t_Point \<Rightarrow> real" where
  "dot a b = fst a * fst b + snd a * snd b"

definition spec_barycentric :: "t_Point \<Rightarrow> t_Point \<Rightarrow> t_Point \<Rightarrow> t_Point \<Rightarrow> real \<times> real \<times> real" where
  "spec_barycentric p V0 V1 V2 =
     (let a = (fst V2 - fst V0, snd V2 - snd V0);
          b = (fst V1 - fst V0, snd V1 - snd V0);
          c = (fst p - fst V0, snd p - snd V0);
          d00 = dot a a; d01 = dot a b; d02 = dot a c; d11 = dot b b; d12 = dot b c;
          u = (d11 * d02 - d01 * d12) / (d00 * d11 - d01 * d01);
          v = (d00 * d12 - d01 * d02) / (d00 * d11 - d01 * d01);
          w = 1 - u - v
      in (u, v, w))"



text \<open>Three vertices of a triangle, with the input indices 0, 1, 2, for the examples.\<close>

abbreviation ex_v0 :: t_Vertex where
  "ex_v0 \<equiv> \<lparr>v_point = (0, 0), v_info = 0\<rparr>"

abbreviation ex_v1 :: t_Vertex where
  "ex_v1 \<equiv> \<lparr>v_point = (1, 0), v_info = 1\<rparr>"

abbreviation ex_v2 :: t_Vertex where
  "ex_v2 \<equiv> \<lparr>v_point = (0, 1), v_info = 2\<rparr>"

section \<open>Results\<close>

subsection \<open>The spatial index\<close>

lemma fold_list_update_prefix:
  "n \<le> length ps \<Longrightarrow>
   fold (\<lambda>i qs. qs[i := f i]) [0..<n] ps = map f [0..<n] @ drop n ps"
proof (induction n)
  case 0
  then show ?case by simp
next
  case (Suc n)
  then have "fold (\<lambda>i qs. qs[i := f i]) [0..<Suc n] ps
             = (map f [0..<n] @ drop n ps)[n := f n]"
    by simp
  also have "\<dots> = map f [0..<n] @ (drop n ps)[0 := f n]"
    by (simp add: list_update_append)
  also have "(drop n ps)[0 := f n] = f n # drop (Suc n) ps"
    using Suc.prems by (simp add: Cons_nth_drop_Suc [symmetric])
  finally show ?case by simp
qed

lemma packed_copy:
  assumes "length x = length y"
  shows "fold (\<lambda>i ps. ps[i := (x ! i, y ! i)]) [0..<length x] (resize (length x) d c) = zip x y"
proof -
  have len: "length (resize (length x) d c) = length x"
    by (simp add: resize_def)
  have "fold (\<lambda>i ps. ps[i := (x ! i, y ! i)]) [0..<length x] (resize (length x) d c)
        = map (\<lambda>i. (x ! i, y ! i)) [0..<length x]"
    using fold_list_update_prefix [of "length x" "resize (length x) d c" "\<lambda>i. (x ! i, y ! i)"] len
    by simp
  also have "\<dots> = zip x y"
    using assms by (intro nth_equalityI) simp_all
  finally show ?thesis .
qed

text \<open>
  C8. \<open>KdtreePrivate::build\<close> with \<open>|x| \<noteq> |y|\<close> returns \<open>SizeMismatch\<close> (the nonzero code 1) and
  leaves the whole state as it was: the point cloud is untouched, \<open>initialized()\<close> answers as
  before, and an object built by the constructor stays uninitialised. With \<open>|x| = |y|\<close> it
  returns \<open>NoError\<close>, the cloud is the packed copy of all points, the tree is built over it
  with leaf capacity 10, and the object is initialised.
\<close>

theorem build_size_mismatch_or_packed:
  "(length x \<noteq> length y \<longrightarrow>
      build bi x y s = (SizeMismatch, s) \<and> SizeMismatch \<noteq> 0 \<and>
      m_cloud (snd (build bi x y s)) = m_cloud s \<and>
      initialized (snd (build bi x y s)) = initialized s \<and>
      \<not> initialized (KdtreePrivate_ctor bi x y) \<and>
      m_cloud (KdtreePrivate_ctor bi x y) = []) \<and>
   (length x = length y \<longrightarrow>
      build bi x y s =
        (NoError, s\<lparr>m_cloud := zip x y,
                    m_tree := Some \<lparr>tree_dim = 2, leaf_max_size = 10,
                                    tree_index = bi 10 (zip x y)\<rparr>,
                    m_initialized := True\<rparr>) \<and>
      initialized (snd (build bi x y s)))"
proof (intro conjI impI)
  assume ne: "length x \<noteq> length y"
  then show "build bi x y s = (SizeMismatch, s)"
    by (simp add: build_def SizeMismatch_def)
  show "SizeMismatch \<noteq> 0"
    by (simp add: SizeMismatch_def)
  from ne show "m_cloud (snd (build bi x y s)) = m_cloud s"
    by (simp add: build_def)
  from ne show "initialized (snd (build bi x y s)) = initialized s"
    by (simp add: build_def)
  from ne show "\<not> initialized (KdtreePrivate_ctor bi x y)"
    by (simp add: KdtreePrivate_ctor_def build_def initialized_def KdtreePrivate_default_def)
  from ne show "m_cloud (KdtreePrivate_ctor bi x y) = []"
    by (simp add: KdtreePrivate_ctor_def build_def KdtreePrivate_default_def)
next
  assume eq: "length x = length y"
  then show "build bi x y s =
        (NoError, s\<lparr>m_cloud := zip x y,
                    m_tree := Some \<lparr>tree_dim = 2, leaf_max_size = 10,
                                    tree_index = bi 10 (zip x y)\<rparr>,
                    m_initialized := True\<rparr>)"
    using packed_copy [OF eq, of "(0, 0)" "m_cloud s"]
    by (simp add: build_def NoError_def Let_def)
  then show "initialized (snd (build bi x y s))"
    by (simp add: initialized_def)
qed

theorem build_size_mismatch_or_packed_witness:
  "length [1, 2 :: real] \<noteq> length [3 :: real] \<and>
   build (\<lambda>n ps. (n, length ps)) [1, 2] [3] KdtreePrivate_default
     = (1, KdtreePrivate_default) \<and>
   length [1, 2 :: real] = length [3, 4 :: real] \<and>
   build (\<lambda>n ps. (n, length ps)) [1, 2] [3, 4] KdtreePrivate_default
     = (0, \<lparr>m_initialized = True, m_cloud = [(1, 3), (2, 4)],
            m_tree = Some \<lparr>tree_dim = 2, leaf_max_size = 10, tree_index = (10, 2)\<rparr>\<rparr>)"
  using build_size_mismatch_or_packed
          [of "[1, 2]" "[3]" "\<lambda>n ps. (n, length ps)" KdtreePrivate_default]
        build_size_mismatch_or_packed
          [of "[1, 2]" "[3, 4]" "\<lambda>n ps. (n, length ps)" KdtreePrivate_default]
  by (simp add: SizeMismatch_def NoError_def KdtreePrivate_default_def)

subsection \<open>Longitude normalisation\<close>









subsection \<open>Corners of the coverage polygon\<close>

text \<open>
  C4. On a grid of two rows of \<open>Ni = 3\<close> columns, \<open>findCorners\<close> takes the minimum and
  maximum of the first row over \<open>[begin, begin + Ni - 1)\<close>, that is over its first two
  elements only, while the last row is taken over all \<open>Ni\<close> elements. The top right corner
  is \<open>(11, 50)\<close>; minimum and maximum over the first \<open>Ni\<close> longitudes give \<open>(12, 50)\<close>.
\<close>

theorem findCorners_first_row_misses_last_element:
  "findCorners \<lparr>m_ni = 3, m_nj = 2, m_size = 6, m_convention = 0,
                m_latitude = [50, 50, 50, 40, 40, 40],
                m_longitude = [10, 11, 12, 10, 11, 12], m_corners = []\<rparr>
   = Inr \<lparr>m_ni = 3, m_nj = 2, m_size = 6, m_convention = 0,
          m_latitude = [50, 50, 50, 40, 40, 40],
          m_longitude = [10, 11, 12, 10, 11, 12],
          m_corners = [(10, 40), (12, 40), (11, 50), (10, 50)]\<rparr> \<and>
   spec_corners \<lparr>m_ni = 3, m_nj = 2, m_size = 6, m_convention = 0,
                 m_latitude = [50, 50, 50, 40, 40, 40],
                 m_longitude = [10, 11, 12, 10, 11, 12], m_corners = []\<rparr>
   = [(10, 40), (12, 40), (12, 50), (10, 50)]"
proof (rule conjI)
  show "findCorners \<lparr>m_ni = 3, m_nj = 2, m_size = 6, m_convention = 0,
                m_latitude = [50, 50, 50, 40, 40, 40],
                m_longitude = [10, 11, 12, 10, 11, 12], m_corners = []\<rparr>
   = Inr \<lparr>m_ni = 3, m_nj = 2, m_size = 6, m_convention = 0,
          m_latitude = [50, 50, 50, 40, 40, 40],
          m_longitude = [10, 11, 12, 10, 11, 12],
          m_corners = [(10, 40), (12, 40), (11, 50), (10, 50)]\<rparr>"
    by (simp add: findCorners_def deref_element_def min_element_def max_element_def
          Let_def eval_nat_numeral)
  show "spec_corners \<lparr>m_ni = 3, m_nj = 2, m_size = 6, m_convention = 0,
                 m_latitude = [50, 50, 50, 40, 40, 40],
                 m_longitude = [10, 11, 12, 10, 11, 12], m_corners = []\<rparr>
   = [(10, 40), (12, 40), (12, 50), (10, 50)]"
    by (simp add: spec_corners_def list_min_def list_max_def Let_def)
qed

subsection \<open>Interpolation weights\<close>

text \<open>
  C1. When CGAL locates the query point \<open>p\<close> in the face \<open>f\<close> with locate type \<open>FACE\<close>, \<open>EDGE\<close>
  or \<open>VERTEX\<close>, the weight returned is valid, its vertex triple is the info of the three
  vertices of \<open>f\<close> in order, and its weight triple is \<open>[w, v, u]\<close> for the \<open>(u, v, w)\<close> of the
  specification's dot-product formula, so that \<open>w\<close> goes with \<open>V0\<close>, \<open>v\<close> with \<open>V1\<close> and \<open>u\<close>
  with \<open>V2\<close>.
\<close>

theorem get_interpolation_weight_hit:
  assumes "locate tri p (if has_hint hint then face hint else None) = (lt, f)"
    and "lt = FACE \<or> lt = EDGE \<or> lt = VERTEX"
  shows "fst (get_interpolation_weight locate tri p hint) =
     \<lparr>m_vertices = [v_info (vertex0 f), v_info (vertex1 f), v_info (vertex2 f)],
      m_weights = (case spec_barycentric p (v_point (vertex0 f)) (v_point (vertex1 f))
                          (v_point (vertex2 f)) of (u, v, w) \<Rightarrow> [w, v, u]),
      m_valid = True\<rparr>"
proof -
  have loc: "(if has_hint hint then locate tri p (face hint) else locate tri p None) = (lt, f)"
    using assms(1) by (simp split: if_splits)
  show ?thesis
    unfolding get_interpolation_weight_def loc
    using assms(2)
    by (simp add: spec_barycentric_def Let_def vertex_def dot_def InterpolationWeight_make_def)
qed

theorem get_interpolation_weight_hit_witness:
  "(\<lambda>t q h. (FACE, new_face (ex_v0,
                               ex_v1,
                               ex_v2)))
      t_CDT_empty (1 / 2, 1 / 4)
      (if has_hint t_LookupHint_default then face t_LookupHint_default else None)
    = (FACE, new_face (ex_v0,
                       ex_v1,
                       ex_v2)) \<and>
   fst (get_interpolation_weight
          (\<lambda>t q h. (FACE, new_face (ex_v0,
                                     ex_v1,
                                     ex_v2)))
          t_CDT_empty (1 / 2, 1 / 4) t_LookupHint_default)
     = \<lparr>m_vertices = [0, 1, 2], m_weights = [1 / 4, 1 / 2, 1 / 4], m_valid = True\<rparr>"
  using get_interpolation_weight_hit
    [of "\<lambda>t q h. (FACE, new_face (ex_v0,
                                   ex_v1,
                                   ex_v2))"
        t_CDT_empty "(1 / 2, 1 / 4)" t_LookupHint_default FACE
        "new_face (ex_v0,
                   ex_v1,
                   ex_v2)"]
  by (simp add: new_face_def spec_barycentric_def dot_def Let_def)

lemma interpolate_at_in_range:
  "valid w \<longrightarrow> list_all (\<lambda>k. unat k < length values) (take 3 (vertices w)) \<Longrightarrow>
   interpolate_at values w =
     Inr (if valid w
          then Num (weights w ! 0 * values ! unat (vertices w ! 0) +
                    weights w ! 1 * values ! unat (vertices w ! 1) +
                    weights w ! 2 * values ! unat (vertices w ! 2))
          else NaN)"
  by (simp add: interpolate_at_def)

lemma interpolate_in_range:
  "list_all (\<lambda>w. valid w \<longrightarrow> list_all (\<lambda>k. unat k < length values) (take 3 (vertices w))) ws \<Longrightarrow>
   interpolate ws values =
     Inr (map (\<lambda>w. if valid w
                    then Num (weights w ! 0 * values ! unat (vertices w ! 0) +
                              weights w ! 1 * values ! unat (vertices w ! 1) +
                              weights w ! 2 * values ! unat (vertices w ! 2))
                    else NaN) ws)"
proof (induction ws)
  case Nil
  then show ?case by simp
next
  case (Cons w ws)
  then show ?case by (simp add: interpolate_at_in_range)
qed

text \<open>
  C7. When CGAL reports \<open>OUTSIDE_CONVEX_HULL\<close> or \<open>OUTSIDE_AFFINE_HULL\<close>,
  \<open>get_interpolation_weight\<close> returns the default weight: not valid, vertices \<open>[0, 0, 0]\<close>,
  weights \<open>[0, 0, 0]\<close>; the hint is left alone. \<open>interpolate\<close>, on weights whose valid entries
  index into \<open>values\<close>, returns one result per weight: NaN for an invalid weight and
  \<open>w0 * values[v0] + w1 * values[v1] + w2 * values[v2]\<close> for a valid one.
\<close>

theorem interpolation_miss_invalid_then_nan:
  "(locate tri p (if has_hint hint then face hint else None) = (lt, f) \<and>
    (lt = OUTSIDE_CONVEX_HULL \<or> lt = OUTSIDE_AFFINE_HULL) \<longrightarrow>
      get_interpolation_weight locate tri p hint =
        (\<lparr>m_vertices = [0, 0, 0], m_weights = [0, 0, 0], m_valid = False\<rparr>, hint)) \<and>
   (list_all (\<lambda>w. valid w \<longrightarrow>
                 list_all (\<lambda>k. unat k < length values) (take 3 (vertices w))) ws \<longrightarrow>
      interpolate ws values =
        Inr (map (\<lambda>w. if valid w
                       then Num (weights w ! 0 * values ! unat (vertices w ! 0) +
                                 weights w ! 1 * values ! unat (vertices w ! 1) +
                                 weights w ! 2 * values ! unat (vertices w ! 2))
                       else NaN) ws))"
proof (intro conjI impI)
  assume a: "locate tri p (if has_hint hint then face hint else None) = (lt, f) \<and>
             (lt = OUTSIDE_CONVEX_HULL \<or> lt = OUTSIDE_AFFINE_HULL)"
  then have loc: "(if has_hint hint then locate tri p (face hint) else locate tri p None) = (lt, f)"
    by (simp split: if_splits)
  from a have no_hit: "\<not> (lt = FACE \<or> lt = EDGE \<or> lt = VERTEX)"
    by auto
  show "get_interpolation_weight locate tri p hint =
        (\<lparr>m_vertices = [0, 0, 0], m_weights = [0, 0, 0], m_valid = False\<rparr>, hint)"
    unfolding get_interpolation_weight_def loc
    using no_hit by (simp add: InterpolationWeight_default_def)
next
  assume "list_all (\<lambda>w. valid w \<longrightarrow>
                 list_all (\<lambda>k. unat k < length values) (take 3 (vertices w))) ws"
  then show "interpolate ws values =
        Inr (map (\<lambda>w. if valid w
                       then Num (weights w ! 0 * values ! unat (vertices w ! 0) +
                                 weights w ! 1 * values ! unat (vertices w ! 1) +
                                 weights w ! 2 * values ! unat (vertices w ! 2))
                       else NaN) ws)"
    by (rule interpolate_in_range)
qed

theorem interpolation_miss_invalid_then_nan_witness:
  "get_interpolation_weight
      (\<lambda>t q h. (OUTSIDE_CONVEX_HULL,
                 new_face (ex_v0,
                           ex_v1,
                           ex_v2)))
      t_CDT_empty (10, 10) t_LookupHint_default
     = (\<lparr>m_vertices = [0, 0, 0], m_weights = [0, 0, 0], m_valid = False\<rparr>,
        t_LookupHint_default) \<and>
   interpolate [InterpolationWeight_default,
                InterpolationWeight_make [0, 1, 2] [1 / 4, 1 / 2, 1 / 4]] [10, 20, 32]
     = Inr [NaN, Num (41 / 2)]"
  using interpolation_miss_invalid_then_nan
    [of "\<lambda>t q h. (OUTSIDE_CONVEX_HULL,
                    new_face (ex_v0,
                              ex_v1,
                              ex_v2))"
        t_CDT_empty "(10, 10)" t_LookupHint_default OUTSIDE_CONVEX_HULL
        "new_face (ex_v0,
                   ex_v1,
                   ex_v2)"
        "[10, 20, 32]"
        "[InterpolationWeight_default,
          InterpolationWeight_make [0, 1, 2] [1 / 4, 1 / 2, 1 / 4]]"]
  by (simp add: InterpolationWeight_default_def InterpolationWeight_make_def valid_def
        vertices_def weights_def)

subsection \<open>The barycentric formula in exact arithmetic\<close>

text \<open>
  Two facts about the formula itself, over the reals: the three weights sum to 1, and on
  a face whose Gram determinant is not zero they reproduce every affine function at the
  query point. The size of the rounding error of the computation in doubles is not
  expressed by these lemmas.
\<close>

lemma gram_solve_x:
  fixes ax ay bx "by" cx cy :: real
  shows "((bx * bx + by * by) * (ax * cx + ay * cy) - (ax * bx + ay * by) * (bx * cx + by * cy)) * ax
       + ((ax * ax + ay * ay) * (bx * cx + by * cy) - (ax * bx + ay * by) * (ax * cx + ay * cy)) * bx
       = cx * ((ax * ax + ay * ay) * (bx * bx + by * by) - (ax * bx + ay * by) * (ax * bx + ay * by))"
  by algebra

lemma gram_solve_y:
  fixes ax ay bx "by" cx cy :: real
  shows "((bx * bx + by * by) * (ax * cx + ay * cy) - (ax * bx + ay * by) * (bx * cx + by * cy)) * ay
       + ((ax * ax + ay * ay) * (bx * cx + by * cy) - (ax * bx + ay * by) * (ax * cx + ay * cy)) * by
       = cy * ((ax * ax + ay * ay) * (bx * bx + by * by) - (ax * bx + ay * by) * (ax * bx + ay * by))"
  by algebra


lemma spec_barycentric_sum:
  "spec_barycentric p V0 V1 V2 = (u, v, w) \<Longrightarrow> w + v + u = 1"
  by (auto simp add: spec_barycentric_def Let_def)

lemma spec_barycentric_point:
  fixes x0 y0 x1 y1 x2 y2 px py :: real
  defines "ax \<equiv> x2 - x0" and "ay \<equiv> y2 - y0" and "bx \<equiv> x1 - x0" and "by \<equiv> y1 - y0"
  assumes bary: "spec_barycentric (px, py) (x0, y0) (x1, y1) (x2, y2) = (u, v, w)"
    and det: "(ax * ax + ay * ay) * (bx * bx + by * by) - (ax * bx + ay * by) * (ax * bx + ay * by) \<noteq> 0"
  shows "u * ax + v * bx = px - x0 \<and> u * ay + v * by = py - y0"
proof -
  define cx cy where "cx = px - x0" and "cy = py - y0"
  define D where
    "D = (ax * ax + ay * ay) * (bx * bx + by * by) - (ax * bx + ay * by) * (ax * bx + ay * by)"
  define Nu where
    "Nu = (bx * bx + by * by) * (ax * cx + ay * cy) - (ax * bx + ay * by) * (bx * cx + by * cy)"
  define Nv where
    "Nv = (ax * ax + ay * ay) * (bx * cx + by * cy) - (ax * bx + ay * by) * (ax * cx + ay * cy)"
  have D: "D \<noteq> 0" using det by (simp add: D_def)
  from bary have u: "u = Nu / D" and v: "v = Nv / D"
    by (simp_all add: spec_barycentric_def Let_def dot_def Nu_def Nv_def D_def
          ax_def ay_def bx_def by_def cx_def cy_def)
  have "Nu * ax + Nv * bx = cx * D" and "Nu * ay + Nv * by = cy * D"
    unfolding Nu_def Nv_def D_def by (rule gram_solve_x, rule gram_solve_y)
  then have "u * ax + v * bx = cx" and "u * ay + v * by = cy"
    using D unfolding u v by (simp_all add: field_simps)
  then show ?thesis by (simp add: cx_def cy_def)
qed

lemma spec_barycentric_affine:
  fixes x0 y0 x1 y1 x2 y2 px py a b c :: real
  assumes bary: "spec_barycentric (px, py) (x0, y0) (x1, y1) (x2, y2) = (u, v, w)"
    and det: "((x2 - x0) * (x2 - x0) + (y2 - y0) * (y2 - y0)) *
              ((x1 - x0) * (x1 - x0) + (y1 - y0) * (y1 - y0)) -
              ((x2 - x0) * (x1 - x0) + (y2 - y0) * (y1 - y0)) *
              ((x2 - x0) * (x1 - x0) + (y2 - y0) * (y1 - y0)) \<noteq> 0"
  shows "w * (a * x0 + b * y0 + c) + v * (a * x1 + b * y1 + c) + u * (a * x2 + b * y2 + c)
         = a * px + b * py + c"
proof -
  from spec_barycentric_point [OF bary det]
  have x: "u * (x2 - x0) + v * (x1 - x0) = px - x0"
    and y: "u * (y2 - y0) + v * (y1 - y0) = py - y0"
    by simp_all
  from spec_barycentric_sum [OF bary] have w: "w = 1 - u - v"
    by simp
  have "w * (a * x0 + b * y0 + c) + v * (a * x1 + b * y1 + c) + u * (a * x2 + b * y2 + c)
        = a * (x0 + (u * (x2 - x0) + v * (x1 - x0)))
          + b * (y0 + (u * (y2 - y0) + v * (y1 - y0))) + c"
    unfolding w by (simp add: algebra_simps)
  also have "\<dots> = a * px + b * py + c"
    unfolding x y by simp
  finally show ?thesis .
qed

subsection \<open>Invalid arguments\<close>

lemma length_iota: "length (iota n) = n mod 2 ^ 32"
  by (simp add: iota_def unat_of_nat)

text \<open>
  C6. Construction fails, and then with \<open>InvalidArgument\<close>, exactly when the coordinate
  vectors differ in length or \<open>x\<close> has fewer than 3 entries. \<open>apply_constraint_polygon\<close> on a
  polygon or a point vector fails, with \<open>InvalidArgument\<close>, exactly when it has fewer than 3
  vertices; on coordinate vectors exactly when they differ in length or the polygon built
  from them has fewer than 3 vertices. That polygon has \<open>|region_x| mod 2^32\<close> vertices,
  the count being cast to \<open>unsigned\<close>, which is \<open>|region_x|\<close> below \<open>2^32\<close>. Nothing else in
  these functions raises; CGAL's own calls are parameters.
\<close>

theorem invalid_argument_iff:
  "(construct_triangulation ins x y = Inl InvalidArgument
      \<longleftrightarrow> length x \<noteq> length y \<or> length x < 3) \<and>
   (isl (construct_triangulation ins x y) \<longleftrightarrow> length x \<noteq> length y \<or> length x < 3) \<and>
   (apply_constraint_polygon insc mark poly t = Inl InvalidArgument \<longleftrightarrow> length poly < 3) \<and>
   (isl (apply_constraint_polygon insc mark poly t) \<longleftrightarrow> length poly < 3) \<and>
   (apply_constraint_polygon_points insc mark poly t = Inl InvalidArgument
      \<longleftrightarrow> length poly < 3) \<and>
   (isl (apply_constraint_polygon_points insc mark poly t) \<longleftrightarrow> length poly < 3) \<and>
   (apply_constraint_polygon_xy insc mark region_x region_y t = Inl InvalidArgument
      \<longleftrightarrow> length region_x \<noteq> length region_y \<or> length region_x mod 2 ^ 32 < 3) \<and>
   (isl (apply_constraint_polygon_xy insc mark region_x region_y t)
      \<longleftrightarrow> length region_x \<noteq> length region_y \<or> length region_x mod 2 ^ 32 < 3)"
  by (auto simp add: construct_triangulation_def construct_points_def
        apply_constraint_polygon_def apply_constraint_polygon_points_def
        apply_constraint_polygon_xy_def length_iota)


theorem invalid_argument_iff_witness:
  "construct_triangulation (\<lambda>pairs. ([], [])) [0, 1] [0, 0] = Inl InvalidArgument \<and>
   construct_triangulation (\<lambda>pairs. ([], [])) [0, 1, 2] [0, 0] = Inl InvalidArgument \<and>
   \<not> isl (construct_triangulation (\<lambda>pairs. ([], [])) [0, 1, 0] [0, 0, 1]) \<and>
   apply_constraint_polygon (\<lambda>poly t. t) (\<lambda>t. Map.empty) [(0, 0), (1, 0)] t_CDT_empty
     = Inl InvalidArgument \<and>
   \<not> isl (apply_constraint_polygon (\<lambda>poly t. t) (\<lambda>t. Map.empty) [(0, 0), (1, 0), (0, 1)]
           t_CDT_empty) \<and>
   apply_constraint_polygon_xy (\<lambda>poly t. t) (\<lambda>t. Map.empty) [0, 1, 0] [0, 0] t_CDT_empty
     = Inl InvalidArgument \<and>
   \<not> isl (apply_constraint_polygon_xy (\<lambda>poly t. t) (\<lambda>t. Map.empty) [0, 1, 0] [0, 0, 1]
           t_CDT_empty)"
  using invalid_argument_iff
          [of "\<lambda>pairs. ([], [])" "[0, 1]" "[0, 0]" "\<lambda>poly t. t" "\<lambda>t. Map.empty"
              "[(0, 0), (1, 0)]" t_CDT_empty "[0, 1, 0]" "[0, 0]"]
        invalid_argument_iff
          [of "\<lambda>pairs. ([], [])" "[0, 1, 2]" "[0, 0]" "\<lambda>poly t. t" "\<lambda>t. Map.empty"
              "[(0, 0), (1, 0), (0, 1)]" t_CDT_empty "[0, 1, 0]" "[0, 0, 1]"]
        invalid_argument_iff
          [of "\<lambda>pairs. ([], [])" "[0, 1, 0]" "[0, 0, 1]" "\<lambda>poly t. t" "\<lambda>t. Map.empty"
              "[(0, 0), (1, 0), (0, 1)]" t_CDT_empty "[0, 1, 0]" "[0, 0, 1]"]
  by simp

subsection \<open>Domain flags\<close>

lemma construct_triangulation_faces:
  assumes "construct_triangulation ins x y = Inr t"
  shows "\<exists>fs. finite_faces t = map new_face fs"
  using assms
  by (auto simp add: construct_triangulation_def add_mesh_points_def Let_def
        split: if_splits sum.splits prod.splits)

lemma mark_domain_status_faces:
  "finite_faces (mark_domain_status mark t) =
     map (\<lambda>(i, f). f\<lparr>f_info := \<lparr>m_in_domain = (mark t i = Some True)\<rparr>\<rparr>)
       (enumerate 0 (finite_faces t))"
  by (auto simp add: mark_domain_status_def Let_def set_in_domain_def split: option.splits)

lemma get_triangles_marked:
  "get_triangles (mark_domain_status mark t) =
     map (\<lambda>(i, f). [v_info (vertex f 0), v_info (vertex f 1), v_info (vertex f 2)])
       (filter (\<lambda>(i, f). mark t i = Some True) (enumerate 0 (finite_faces t)))"
  unfolding get_triangles_def mark_domain_status_faces
  by (simp add: filter_map comp_def split_def is_in_domain_def vertex_def)

text \<open>
  C9. In a triangulation returned by the constructor no finite face is in the domain
  (every face carries the default \<open>FaceInfo2\<close>), so \<open>get_triangles\<close> is empty. After
  \<open>apply_constraint_polygon\<close> the triangles returned are those of the faces that CGAL's
  domain marking maps to true, which is the only way for the result to be non-empty.
\<close>

theorem fresh_triangulation_has_no_triangles:
  "(construct_triangulation ins x y = Inr t \<longrightarrow>
      list_all (\<lambda>f. \<not> is_in_domain (f_info f)) (finite_faces t) \<and> get_triangles t = []) \<and>
   (apply_constraint_polygon insc mark poly t = Inr t' \<longrightarrow>
      get_triangles t' =
        map (\<lambda>(i, f). [v_info (vertex f 0), v_info (vertex f 1), v_info (vertex f 2)])
          (filter (\<lambda>(i, f). mark (insc poly t) i = Some True)
             (enumerate 0 (finite_faces (insc poly t)))))"
proof (intro conjI impI)
  assume c: "construct_triangulation ins x y = Inr t"
  then obtain fs where fs: "finite_faces t = map new_face fs"
    using construct_triangulation_faces by blast
  show "list_all (\<lambda>f. \<not> is_in_domain (f_info f)) (finite_faces t)"
    unfolding fs
    by (auto simp add: list_all_iff new_face_def is_in_domain_def FaceInfo2_default_def)
  then show "get_triangles t = []"
    by (simp add: get_triangles_def list_all_iff filter_empty_conv)
next
  assume a: "apply_constraint_polygon insc mark poly t = Inr t'"
  then have t': "t' = mark_domain_status mark (insc poly t)"
    by (simp add: apply_constraint_polygon_def split: if_splits)
  show "get_triangles t' =
        map (\<lambda>(i, f). [v_info (vertex f 0), v_info (vertex f 1), v_info (vertex f 2)])
          (filter (\<lambda>(i, f). mark (insc poly t) i = Some True)
             (enumerate 0 (finite_faces (insc poly t))))"
    unfolding t' by (rule get_triangles_marked)
qed

theorem fresh_triangulation_has_no_triangles_witness:
  "construct_triangulation (\<lambda>pairs. ([ex_v0, ex_v1, ex_v2], [(ex_v0, ex_v1, ex_v2)]))
     [0, 1, 0] [0, 0, 1]
     = Inr \<lparr>finite_vertices = [ex_v0, ex_v1, ex_v2],
            finite_faces = [new_face (ex_v0, ex_v1, ex_v2)]\<rparr> \<and>
   get_triangles \<lparr>finite_vertices = [ex_v0, ex_v1, ex_v2],
                  finite_faces = [new_face (ex_v0, ex_v1, ex_v2)]\<rparr> = [] \<and>
   apply_constraint_polygon (\<lambda>poly t. t) (\<lambda>t. [0 \<mapsto> True]) [(0, 0), (1, 0), (0, 1)]
     \<lparr>finite_vertices = [ex_v0, ex_v1, ex_v2],
      finite_faces = [new_face (ex_v0, ex_v1, ex_v2)]\<rparr>
     = Inr \<lparr>finite_vertices = [ex_v0, ex_v1, ex_v2],
            finite_faces = [(new_face (ex_v0, ex_v1, ex_v2))\<lparr>f_info := \<lparr>m_in_domain = True\<rparr>\<rparr>]\<rparr> \<and>
   get_triangles
     \<lparr>finite_vertices = [ex_v0, ex_v1, ex_v2],
      finite_faces = [(new_face (ex_v0, ex_v1, ex_v2))\<lparr>f_info := \<lparr>m_in_domain = True\<rparr>\<rparr>]\<rparr>
     = [[0, 1, 2]]"
  using fresh_triangulation_has_no_triangles
    [of "\<lambda>pairs. ([ex_v0, ex_v1, ex_v2], [(ex_v0, ex_v1, ex_v2)])" "[0, 1, 0]" "[0, 0, 1]"
        "\<lparr>finite_vertices = [ex_v0, ex_v1, ex_v2],
          finite_faces = [new_face (ex_v0, ex_v1, ex_v2)]\<rparr>"
        "\<lambda>poly t. t" "\<lambda>t. [0 \<mapsto> True]" "[(0, 0), (1, 0), (0, 1)]"
        "\<lparr>finite_vertices = [ex_v0, ex_v1, ex_v2],
          finite_faces = [(new_face (ex_v0, ex_v1, ex_v2))\<lparr>f_info := \<lparr>m_in_domain = True\<rparr>\<rparr>]\<rparr>"]
  by (simp add: construct_triangulation_def construct_points_def add_mesh_points_def
        t_CDT_empty_def apply_constraint_polygon_def mark_domain_status_def set_in_domain_def
        new_face_def vertex_def)

subsection \<open>Vertices by input index\<close>






lemma get_vertices_loop_length:
  "get_vertices_loop vs r0 = Inr r \<Longrightarrow> length r = length r0"
  by (induction vs arbitrary: r0) (auto split: if_splits)










end
